theory Spec2Isabelle
  imports Complex_Main "HOL-Library.Sublist"
begin

section \<open>Multi-agent cloud architecture planning: the data model\<close>

text \<open>
  The embedding follows
  \<^verbatim>\<open>Python_Exam/Test Agent Orchestration for Cloud Architecture Planning.py\<close>.
  Enums are datatypes, dataclasses and the two dictionaries with fixed keys are records.
  Field names that two classes share carry a prefix (\<open>br_\<close>, \<open>tr_\<close>, \<open>cs_\<close>,
  \<open>fr_\<close>); every other field keeps its name.
\<close>

datatype ArchitectureType = ECOMMERCE | CHATBOT | EXPENSE_TRACKER

datatype CloudProvider = AWS | AZURE | GCP

text \<open>The \<^verbatim>\<open>value\<close> attribute of the two enums.\<close>

fun ArchitectureType_value :: "ArchitectureType \<Rightarrow> string" where
  "ArchitectureType_value ECOMMERCE = ''ecommerce''"
| "ArchitectureType_value CHATBOT = ''chatbot''"
| "ArchitectureType_value EXPENSE_TRACKER = ''expense_tracker''"

fun CloudProvider_value :: "CloudProvider \<Rightarrow> string" where
  "CloudProvider_value AWS = ''aws''"
| "CloudProvider_value AZURE = ''azure''"
| "CloudProvider_value GCP = ''gcp''"

record BusinessRequirement =
  br_description :: string
  priority :: int
  category :: string
  br_constraints :: "string list"

text \<open>
  \<^verbatim>\<open>performance_needs: Dict[str, Any]\<close> holds strings and integers in the source;
  the dictionary literals have one key each, kept as an association list.
\<close>

datatype py_value = PyStr string | PyInt int

record TechnicalRequirement =
  component :: string
  tr_requirements :: "string list"
  dependencies :: "string list"
  performance_needs :: "(string \<times> py_value) list"

record CloudService =
  cs_name :: string
  cs_provider :: CloudProvider
  service_type :: string
  cs_description :: string
  cs_cost_estimate :: string
  scalability :: string
  security_features :: "string list"

text \<open>
  \<^verbatim>\<open>confidence_score: float\<close>. The source only ever stores the literal \<^verbatim>\<open>0.85\<close>
  and copies it; no arithmetic is done on it, so the score is kept as the number the
  literal denotes.
\<close>

record ArchitectureRecommendation =
  architecture_type :: ArchitectureType
  services :: "CloudService list"
  deployment_strategy :: string
  cost_estimate :: string
  security_considerations :: "string list"
  scalability_plan :: string
  monitoring_strategy :: string
  confidence_score :: real

text \<open>The dictionary built at the top of \<^verbatim>\<open>analyze_requirements\<close> (four fixed keys).\<close>

record Requirements =
  business_requirements :: "BusinessRequirement list"
  technical_requirements :: "TechnicalRequirement list"
  constraints :: "string list"
  success_metrics :: "string list"

text \<open>The dictionary returned by \<^verbatim>\<open>process_architecture_request\<close> (five fixed keys).\<close>

record FinalRecommendation =
  problem_description :: string
  fr_requirements :: Requirements
  architecture :: ArchitectureRecommendation
  fr_confidence_score :: real
  next_steps :: "string list"

text \<open>Positional constructors of the dataclasses, in the order of their fields.\<close>

definition mkBusinessRequirement ::
  "string \<Rightarrow> int \<Rightarrow> string \<Rightarrow> string list \<Rightarrow> BusinessRequirement" where
  "mkBusinessRequirement d p c cs =
     \<lparr>br_description = d, priority = p, category = c, br_constraints = cs\<rparr>"

definition mkTechnicalRequirement ::
  "string \<Rightarrow> string list \<Rightarrow> string list \<Rightarrow> (string \<times> py_value) list \<Rightarrow> TechnicalRequirement" where
  "mkTechnicalRequirement c rs ds pn =
     \<lparr>component = c, tr_requirements = rs, dependencies = ds, performance_needs = pn\<rparr>"

definition mkCloudService ::
  "string \<Rightarrow> CloudProvider \<Rightarrow> string \<Rightarrow> string \<Rightarrow> string \<Rightarrow> string \<Rightarrow> string list \<Rightarrow> CloudService" where
  "mkCloudService n p t d c s fs =
     \<lparr>cs_name = n, cs_provider = p, service_type = t, cs_description = d,
      cs_cost_estimate = c, scalability = s, security_features = fs\<rparr>"

section \<open>Strings and logging\<close>

text \<open>
  \<^verbatim>\<open>str.lower()\<close> on the ASCII letters; every other character is left as it is.
  The three keywords the source searches for are ASCII and contain neither \<open>k\<close> nor
  \<open>i\<close>, the only ASCII letters that a non-ASCII code point lowers to.
\<close>

definition lower_char :: "char \<Rightarrow> char" where
  "lower_char c =
     (let n = (of_char c :: nat) in if 65 \<le> n \<and> n \<le> 90 then char_of (n + 32) else c)"

definition lower :: "string \<Rightarrow> string" where
  "lower s = map lower_char s"

text \<open>\<^verbatim>\<open>needle in haystack\<close> on strings: the needle occurs as a contiguous run.\<close>

fun str_in :: "string \<Rightarrow> string \<Rightarrow> bool" where
  "str_in k [] = (k = [])"
| "str_in k (c # cs) = (prefix k (c # cs) \<or> str_in k cs)"

text \<open>
  The module-level logger is the only state the three coroutines touch:
  \<^verbatim>\<open>logger.info\<close> appends one line. The coroutines are awaited one after the other,
  so they are modelled as functions that take the log and return it extended.
\<close>

type_synonym log = "string list"

definition logger_info :: "string \<Rightarrow> log \<Rightarrow> log" where
  "logger_info msg lg = lg @ [msg]"

section \<open>RequirementsAnalyzer\<close>

definition RequirementsAnalyzer_name :: string where
  "RequirementsAnalyzer_name = ''Requirements Analyzer''"

text \<open>The dictionary \<^verbatim>\<open>requirements\<close> as first assigned (lines 109--114).\<close>

definition initial_requirements :: Requirements where
  "initial_requirements =
     \<lparr>business_requirements = [], technical_requirements = [],
      constraints = [], success_metrics = []\<rparr>"

text \<open>The assignments of the first branch (lines 118--132).\<close>

definition ecommerce_requirements :: Requirements where
  "ecommerce_requirements = initial_requirements
     \<lparr>business_requirements := [
        mkBusinessRequirement ''Handle 1000 daily users'' 5 ''scalability'' [''high_availability''],
        mkBusinessRequirement ''Secure payment processing'' 5 ''security'' [''PCI_DSS_compliance''],
        mkBusinessRequirement ''Product catalog management'' 4 ''functionality'' [''search_capability''],
        mkBusinessRequirement ''Shopping cart functionality'' 4 ''functionality'' [''session_management''],
        mkBusinessRequirement ''Admin dashboard'' 3 ''functionality'' [''user_management'']],
      technical_requirements := [
        mkTechnicalRequirement ''web_application'' [''responsive_design'', ''mobile_support''] []
          [(''response_time'', PyStr ''<2s'')],
        mkTechnicalRequirement ''database'' [''ACID_compliance'', ''backup_recovery'']
          [''web_application''] [(''concurrent_users'', PyInt 1000)],
        mkTechnicalRequirement ''payment_gateway'' [''PCI_compliance'', ''encryption'']
          [''web_application''] [(''transaction_volume'', PyStr ''high'')],
        mkTechnicalRequirement ''file_storage'' [''image_optimization'', ''CDN'']
          [''web_application''] [(''storage_capacity'', PyStr ''unlimited'')]],
      constraints := [''budget_conscious'', ''time_to_market''],
      success_metrics := [''user_satisfaction'', ''conversion_rate'', ''uptime'']\<rparr>"

text \<open>The assignments of the second branch (lines 135--147).\<close>

definition chatbot_requirements :: Requirements where
  "chatbot_requirements = initial_requirements
     \<lparr>business_requirements := [
        mkBusinessRequirement ''Handle 500+ conversations daily'' 5 ''scalability'' [''real_time_processing''],
        mkBusinessRequirement ''CRM integration'' 4 ''integration'' [''api_compatibility''],
        mkBusinessRequirement ''Human escalation'' 3 ''functionality'' [''seamless_handoff''],
        mkBusinessRequirement ''Multi-language support'' 3 ''functionality'' [''internationalization'']],
      technical_requirements := [
        mkTechnicalRequirement ''ai_service'' [''natural_language_processing'', ''sentiment_analysis''] []
          [(''response_time'', PyStr ''<1s'')],
        mkTechnicalRequirement ''conversation_storage'' [''real_time_access'', ''privacy_compliance'']
          [''ai_service''] [(''concurrent_conversations'', PyInt 500)],
        mkTechnicalRequirement ''crm_integration'' [''api_connectivity'', ''data_sync'']
          [''ai_service''] [(''sync_frequency'', PyStr ''real_time'')]],
      constraints := [''ai_model_accuracy'', ''response_time''],
      success_metrics := [''resolution_rate'', ''customer_satisfaction'', ''escalation_rate'']\<rparr>"

text \<open>The assignments of the third branch (lines 150--163).\<close>

definition expense_requirements :: Requirements where
  "expense_requirements = initial_requirements
     \<lparr>business_requirements := [
        mkBusinessRequirement ''Mobile app support'' 5 ''functionality'' [''cross_platform''],
        mkBusinessRequirement ''Receipt photo processing'' 4 ''functionality'' [''ocr_capability''],
        mkBusinessRequirement ''Approval workflow'' 4 ''functionality'' [''notification_system''],
        mkBusinessRequirement ''Payroll integration'' 3 ''integration'' [''secure_data_transfer'']],
      technical_requirements := [
        mkTechnicalRequirement ''mobile_backend'' [''rest_api'', ''authentication''] []
          [(''concurrent_users'', PyInt 500)],
        mkTechnicalRequirement ''image_processing'' [''ocr_service'', ''image_storage'']
          [''mobile_backend''] [(''processing_time'', PyStr ''<5s'')],
        mkTechnicalRequirement ''workflow_engine'' [''approval_routing'', ''notifications'']
          [''mobile_backend''] [(''approval_time'', PyStr ''<24h'')],
        mkTechnicalRequirement ''payroll_integration'' [''secure_api'', ''data_validation'']
          [''workflow_engine''] [(''sync_frequency'', PyStr ''daily'')]],
      constraints := [''mobile_performance'', ''data_privacy''],
      success_metrics := [''user_adoption'', ''processing_accuracy'', ''approval_efficiency'']\<rparr>"

text \<open>
  \<^verbatim>\<open>analyze_requirements\<close>: one log line, then the \<^verbatim>\<open>if/elif/elif\<close> chain on the
  lowered description; with no branch taken the dictionary is returned as first assigned.
  The source has no \<^verbatim>\<open>raise\<close> and no validation of the description.
\<close>

definition analyze_requirements :: "string \<Rightarrow> log \<Rightarrow> Requirements \<times> log" where
  "analyze_requirements description lg =
     (let lg1 = logger_info
            (RequirementsAnalyzer_name @ '': Analyzing requirements for: '' @ description) lg
      in (if str_in ''ecommerce'' (lower description) then ecommerce_requirements
          else if str_in ''chatbot'' (lower description) then chatbot_requirements
          else if str_in ''expense'' (lower description) then expense_requirements
          else initial_requirements,
          lg1))"

text \<open>
  Which branch of the chain in \<^verbatim>\<open>analyze_requirements\<close> assigns the requirements:
  the same three tests in the same order, \<open>None\<close> when none holds.
\<close>

definition requirement_branch :: "string \<Rightarrow> ArchitectureType option" where
  "requirement_branch description =
     (if str_in ''ecommerce'' (lower description) then Some ECOMMERCE
      else if str_in ''chatbot'' (lower description) then Some CHATBOT
      else if str_in ''expense'' (lower description) then Some EXPENSE_TRACKER
      else None)"

section \<open>CloudArchitect\<close>

definition CloudArchitect_name :: string where
  "CloudArchitect_name = ''Cloud Architect''"

text \<open>The three service tables: a list for AWS, the empty list for every other provider.\<close>

definition design_ecommerce_architecture :: "CloudProvider \<Rightarrow> CloudService list" where
  "design_ecommerce_architecture provider =
     (if provider = AWS then [
        mkCloudService ''Amazon EC2'' AWS ''compute'' ''Web application servers''
          ''$200-500/month'' ''Auto Scaling'' [''VPC'', ''Security Groups''],
        mkCloudService ''Amazon RDS'' AWS ''database'' ''MySQL/PostgreSQL database''
          ''$100-300/month'' ''Read replicas'' [''Encryption at rest'', ''VPC''],
        mkCloudService ''Amazon S3'' AWS ''storage'' ''Product images and static assets''
          ''$50-150/month'' ''Unlimited'' [''Bucket policies'', ''Encryption''],
        mkCloudService ''CloudFront'' AWS ''networking'' ''CDN for global content delivery''
          ''$20-100/month'' ''Global'' [''DDoS protection'', ''SSL/TLS''],
        mkCloudService ''Application Load Balancer'' AWS ''networking''
          ''Traffic distribution and SSL termination''
          ''$30-80/month'' ''Auto Scaling'' [''Health checks'', ''SSL termination''],
        mkCloudService ''AWS WAF'' AWS ''security'' ''Web application firewall''
          ''$10-50/month'' ''Auto Scaling'' [''OWASP protection'', ''DDoS mitigation'']]
      else [])"

definition design_chatbot_architecture :: "CloudProvider \<Rightarrow> CloudService list" where
  "design_chatbot_architecture provider =
     (if provider = AWS then [
        mkCloudService ''AWS Lambda'' AWS ''compute'' ''Serverless chatbot functions''
          ''$50-200/month'' ''Auto Scaling'' [''IAM roles'', ''VPC''],
        mkCloudService ''Amazon Lex'' AWS ''ai'' ''Natural language understanding''
          ''$100-300/month'' ''Auto Scaling'' [''Data encryption'', ''Access control''],
        mkCloudService ''Amazon DynamoDB'' AWS ''database'' ''Conversation storage''
          ''$80-200/month'' ''Auto Scaling'' [''Encryption at rest'', ''Point-in-time recovery''],
        mkCloudService ''Amazon API Gateway'' AWS ''networking'' ''API management''
          ''$30-100/month'' ''Auto Scaling'' [''API keys'', ''Rate limiting''],
        mkCloudService ''Amazon SNS'' AWS ''messaging'' ''Notifications and escalations''
          ''$20-50/month'' ''Auto Scaling'' [''Message encryption'', ''Access control'']]
      else [])"

definition design_expense_tracker_architecture :: "CloudProvider \<Rightarrow> CloudService list" where
  "design_expense_tracker_architecture provider =
     (if provider = AWS then [
        mkCloudService ''AWS Lambda'' AWS ''compute'' ''Serverless backend API''
          ''$50-150/month'' ''Auto Scaling'' [''IAM roles'', ''VPC''],
        mkCloudService ''Amazon S3'' AWS ''storage'' ''Receipt image storage''
          ''$30-100/month'' ''Unlimited'' [''Bucket policies'', ''Encryption''],
        mkCloudService ''Amazon Textract'' AWS ''ai'' ''OCR for receipt processing''
          ''$100-300/month'' ''Auto Scaling'' [''Data encryption'', ''Access control''],
        mkCloudService ''Amazon RDS'' AWS ''database'' ''Expense data storage''
          ''$80-200/month'' ''Read replicas'' [''Encryption at rest'', ''VPC''],
        mkCloudService ''Amazon SNS'' AWS ''messaging'' ''Approval notifications''
          ''$20-50/month'' ''Auto Scaling'' [''Message encryption'', ''Access control'']]
      else [])"

text \<open>
  The generator expressions under \<^verbatim>\<open>any\<close>. The nested one runs over every constraint of
  every business requirement, in order; the flat one over the dictionary's own
  \<^verbatim>\<open>constraints\<close> list.
\<close>

definition any_business_constraint :: "string \<Rightarrow> Requirements \<Rightarrow> bool" where
  "any_business_constraint k reqs =
     list_ex (str_in k) (concat (map br_constraints (business_requirements reqs)))"

definition any_constraint :: "string \<Rightarrow> Requirements \<Rightarrow> bool" where
  "any_constraint k reqs = list_ex (str_in k) (constraints reqs)"

definition any_description :: "string \<Rightarrow> Requirements \<Rightarrow> bool" where
  "any_description k reqs =
     list_ex (\<lambda>req. str_in k (lower (br_description req))) (business_requirements reqs)"

definition get_deployment_strategy :: "Requirements \<Rightarrow> string" where
  "get_deployment_strategy reqs =
     (if any_business_constraint ''high_availability'' reqs
        then ''Blue-Green deployment with zero downtime''
      else if any_constraint ''budget_conscious'' reqs
        then ''Rolling deployment with cost optimization''
      else ''Canary deployment with gradual rollout'')"

definition estimate_costs :: "CloudService list \<Rightarrow> string" where
  "estimate_costs svcs = ''$500-1500/month depending on usage''"

definition get_security_considerations :: "Requirements \<Rightarrow> string list" where
  "get_security_considerations reqs =
     (let considerations = [''Data encryption in transit and at rest'',
            ''Identity and access management'', ''Network security''];
          considerations =
            (if any_business_constraint ''PCI_DSS_compliance'' reqs
             then considerations @ [''PCI DSS compliance for payment processing'']
             else considerations);
          considerations =
            (if any_constraint ''data_privacy'' reqs
             then considerations @ [''GDPR compliance for data privacy'']
             else considerations)
      in considerations)"

definition get_scalability_plan :: "Requirements \<Rightarrow> string" where
  "get_scalability_plan reqs =
     ''Auto-scaling based on demand with horizontal scaling capabilities and load balancing''"

definition get_monitoring_strategy :: "Requirements \<Rightarrow> string" where
  "get_monitoring_strategy reqs =
     ''Comprehensive monitoring with CloudWatch, application performance monitoring, and alerting''"

text \<open>
  The service selection of \<^verbatim>\<open>design_architecture\<close> (lines 178--186): the keywords are
  looked for in the lowered descriptions of the business requirements.
\<close>

definition select_services :: "Requirements \<Rightarrow> CloudProvider \<Rightarrow> CloudService list" where
  "select_services reqs preferred_provider =
     (if any_description ''ecommerce'' reqs then design_ecommerce_architecture preferred_provider
      else if any_description ''chatbot'' reqs then design_chatbot_architecture preferred_provider
      else if any_description ''expense'' reqs
        then design_expense_tracker_architecture preferred_provider
      else [])"

text \<open>
  \<^verbatim>\<open>design_architecture\<close>: one log line, the service selection, and the record built at
  lines 188--197, whose \<^verbatim>\<open>architecture_type\<close> is the constant
  \<^verbatim>\<open>ArchitectureType.ECOMMERCE\<close> and whose \<^verbatim>\<open>confidence_score\<close> is the literal
  \<^verbatim>\<open>0.85\<close>.
\<close>

definition design_architecture ::
  "Requirements \<Rightarrow> CloudProvider \<Rightarrow> log \<Rightarrow> ArchitectureRecommendation \<times> log" where
  "design_architecture reqs preferred_provider lg =
     (let lg1 = logger_info
            (CloudArchitect_name @ '': Designing architecture for ''
               @ CloudProvider_value preferred_provider) lg;
          svcs = select_services reqs preferred_provider
      in (\<lparr>architecture_type = ECOMMERCE,
           services = svcs,
           deployment_strategy = get_deployment_strategy reqs,
           cost_estimate = estimate_costs svcs,
           security_considerations = get_security_considerations reqs,
           scalability_plan = get_scalability_plan reqs,
           monitoring_strategy = get_monitoring_strategy reqs,
           confidence_score = 85 / 100\<rparr>,
          lg1))"

section \<open>MultiAgentOrchestrator\<close>

definition process_architecture_request ::
  "string \<Rightarrow> CloudProvider \<Rightarrow> log \<Rightarrow> FinalRecommendation \<times> log" where
  "process_architecture_request description preferred_provider lg =
     (let lg1 = logger_info ''Starting multi-agent architecture planning process'' lg;
          (reqs, lg2) = analyze_requirements description lg1;
          (arch, lg3) = design_architecture reqs preferred_provider lg2
      in (\<lparr>problem_description = description,
           fr_requirements = reqs,
           architecture = arch,
           fr_confidence_score = confidence_score arch,
           next_steps = [''Review and approve architecture design'',
             ''Set up development environment'',
             ''Implement security controls'',
             ''Plan deployment strategy'']\<rparr>,
          lg3))"

text \<open>The default of the parameter \<^verbatim>\<open>preferred_provider\<close>.\<close>

definition default_provider :: CloudProvider where
  "default_provider = AWS"

section \<open>Notions of the specification\<close>

text \<open>
  The descriptions the specification calls empty or whitespace-only: every character is
  one of the ASCII characters that \<^verbatim>\<open>str.isspace\<close> accepts (tab to carriage
  return, the four separators, the space). A description made of other white space
  contains no keyword either and is covered by what is proved for such descriptions.
\<close>

definition is_space :: "char \<Rightarrow> bool" where
  "is_space c =
     (let n = (of_char c :: nat) in (9 \<le> n \<and> n \<le> 13) \<or> (28 \<le> n \<and> n \<le> 32))"

definition whitespace_only :: "string \<Rightarrow> bool" where
  "whitespace_only s = list_all is_space s"

text \<open>
  The aggregation formula as the specification words it (section 4.5): the equal-weight
  mean of the classification, extraction and synthesis confidences, times \<open>0.9\<close> for
  each failed specialist, not below \<open>0\<close>. The source has no such computation; the
  formula is here to be compared with what the source returns.
\<close>

definition spec_overall_confidence :: "real \<Rightarrow> real \<Rightarrow> real \<Rightarrow> nat \<Rightarrow> real" where
  "spec_overall_confidence c e s failed = max 0 ((c + e + s) / 3 * (9 / 10) ^ failed)"

text \<open>A service list holds at least one service of the given type.\<close>

definition has_service_type :: "string \<Rightarrow> CloudService list \<Rightarrow> bool" where
  "has_service_type t svcs = list_ex (\<lambda>s. service_type s = t) svcs"

text \<open>
  A requirement dictionary that \<^verbatim>\<open>design_architecture\<close> can be called with directly:
  one business requirement whose description names the e-commerce keyword.
\<close>

definition ecommerce_titled_requirements :: Requirements where
  "ecommerce_titled_requirements = initial_requirements
     \<lparr>business_requirements :=
        [mkBusinessRequirement ''Ecommerce storefront'' 5 ''functionality'' []]\<rparr>"

section \<open>Substring search\<close>

lemma str_in_iff_sublist: "str_in k s \<longleftrightarrow> sublist k s"
  by (induction s) (auto simp: sublist_Cons_right)

lemma str_in_set: "str_in k s \<Longrightarrow> set k \<subseteq> set s"
  by (simp add: str_in_iff_sublist set_mono_sublist)

lemma lower_char_space: "is_space c \<Longrightarrow> lower_char c = c"
  by (auto simp: is_space_def lower_char_def Let_def)

lemma lower_whitespace_only: "whitespace_only s \<Longrightarrow> lower s = s"
  by (induction s) (auto simp: whitespace_only_def lower_def lower_char_space)

lemma keyword_heads_not_space: "\<not> is_space (CHR ''e'')" "\<not> is_space (CHR ''c'')"
  by (simp_all add: is_space_def)

lemma whitespace_only_no_keyword:
  assumes "whitespace_only s" "c \<in> set k" "\<not> is_space c"
  shows "\<not> str_in k (lower s)"
proof
  assume "str_in k (lower s)"
  then have "c \<in> set s"
    using assms(1,2) str_in_set lower_whitespace_only by fastforce
  then show False
    using assms(1,3) by (auto simp: whitespace_only_def list_all_iff)
qed

lemma whitespace_only_branch: "whitespace_only s \<Longrightarrow> requirement_branch s = None"
  unfolding requirement_branch_def
  using whitespace_only_no_keyword [of s "CHR ''e''" "''ecommerce''"]
        whitespace_only_no_keyword [of s "CHR ''c''" "''chatbot''"]
        whitespace_only_no_keyword [of s "CHR ''e''" "''expense''"]
  by (simp add: keyword_heads_not_space)

section \<open>What each stage returns, whatever the log holds\<close>

lemma fst_analyze_requirements:
  "fst (analyze_requirements d lg) =
     (case requirement_branch d of
        Some ECOMMERCE \<Rightarrow> ecommerce_requirements
      | Some CHATBOT \<Rightarrow> chatbot_requirements
      | Some EXPENSE_TRACKER \<Rightarrow> expense_requirements
      | None \<Rightarrow> initial_requirements)"
  by (simp add: analyze_requirements_def requirement_branch_def Let_def)

lemma branch_None_requirements:
  "requirement_branch d = None \<Longrightarrow> fst (analyze_requirements d lg) = initial_requirements"
  by (simp add: fst_analyze_requirements)

lemma fst_design_architecture:
  "fst (design_architecture reqs p lg) =
     \<lparr>architecture_type = ECOMMERCE,
      services = select_services reqs p,
      deployment_strategy = get_deployment_strategy reqs,
      cost_estimate = estimate_costs (select_services reqs p),
      security_considerations = get_security_considerations reqs,
      scalability_plan = get_scalability_plan reqs,
      monitoring_strategy = get_monitoring_strategy reqs,
      confidence_score = 85 / 100\<rparr>"
  by (simp add: design_architecture_def Let_def)

lemma fst_process_architecture_request:
  "fst (process_architecture_request d p lg) =
     \<lparr>problem_description = d,
      fr_requirements = fst (analyze_requirements d []),
      architecture = fst (design_architecture (fst (analyze_requirements d [])) p []),
      fr_confidence_score = 85 / 100,
      next_steps = [''Review and approve architecture design'',
        ''Set up development environment'',
        ''Implement security controls'',
        ''Plan deployment strategy'']\<rparr>"
  by (simp add: process_architecture_request_def analyze_requirements_def
      design_architecture_def Let_def)

text \<open>The log itself: three lines are appended, in the order of the calls.\<close>

lemma snd_process_architecture_request:
  "snd (process_architecture_request d p lg) =
     lg @ [''Starting multi-agent architecture planning process'',
           ''Requirements Analyzer: Analyzing requirements for: '' @ d,
           ''Cloud Architect: Designing architecture for '' @ CloudProvider_value p]"
  by (simp add: process_architecture_request_def analyze_requirements_def
      design_architecture_def logger_info_def Let_def RequirementsAnalyzer_name_def
      CloudArchitect_name_def)

section \<open>The tests on constraints and descriptions\<close>

lemma any_business_constraint_iff:
  "any_business_constraint k reqs \<longleftrightarrow>
     (\<exists>r \<in> set (business_requirements reqs). \<exists>c \<in> set (br_constraints r). sublist k c)"
  by (auto simp: any_business_constraint_def list_ex_iff str_in_iff_sublist)

lemma any_constraint_iff:
  "any_constraint k reqs \<longleftrightarrow> (\<exists>c \<in> set (constraints reqs). sublist k c)"
  by (simp add: any_constraint_def list_ex_iff str_in_iff_sublist)

text \<open>
  None of the descriptions that \<^verbatim>\<open>analyze_requirements\<close> writes contains a keyword, so
  the service selection finds nothing in any dictionary the analyzer returns.
\<close>

lemma analyzer_output_selects_nothing:
  "select_services ecommerce_requirements p = []"
  "select_services chatbot_requirements p = []"
  "select_services expense_requirements p = []"
  "select_services initial_requirements p = []"
  by code_simp+

lemma initial_strategy:
  "get_deployment_strategy initial_requirements = ''Canary deployment with gradual rollout''"
  by code_simp

lemma initial_security:
  "get_security_considerations initial_requirements =
     [''Data encryption in transit and at rest'', ''Identity and access management'',
      ''Network security'']"
  by code_simp

lemma ecommerce_strategy:
  "get_deployment_strategy ecommerce_requirements = ''Blue-Green deployment with zero downtime''"
  by code_simp

lemma ecommerce_catalogue_types:
  "has_service_type ''compute'' (design_ecommerce_architecture AWS)"
  "has_service_type ''database'' (design_ecommerce_architecture AWS)"
  "has_service_type ''storage'' (design_ecommerce_architecture AWS)"
  "has_service_type ''networking'' (design_ecommerce_architecture AWS)"
  by code_simp+

lemma ecommerce_titled_select:
  "select_services ecommerce_titled_requirements p = design_ecommerce_architecture p"
proof -
  have "any_description ''ecommerce'' ecommerce_titled_requirements"
    by code_simp
  then show ?thesis
    by (simp add: select_services_def)
qed

text \<open>
  The scenario that \<^verbatim>\<open>main\<close> runs is spelled \<^verbatim>\<open>E-commerce\<close>, with a hyphen: the
  lowered text does not contain \<open>ecommerce\<close>, and no branch is taken.
\<close>

lemma main_scenario_takes_no_branch:
  "requirement_branch ''Simple E-commerce Site - Online store for small business (1000 daily users) with product catalog, shopping cart, payment processing, and basic admin dashboard'' = None"
  by code_simp

lemma requirement_sets_differ:
  "ecommerce_requirements \<noteq> chatbot_requirements"
  "ecommerce_requirements \<noteq> expense_requirements"
  "chatbot_requirements \<noteq> expense_requirements"
  by (simp_all add: ecommerce_requirements_def chatbot_requirements_def
      expense_requirements_def initial_requirements_def)

section \<open>The claims\<close>

subsection \<open>C1: the category label of the recommendation\<close>

text \<open>
  C1 says that the category label on the recommendation is the category whose
  requirements were extracted. The source builds the record with
  \<^verbatim>\<open>architecture_type=ArchitectureType.ECOMMERCE  # This would be determined dynamically\<close>:
  for the description \<^verbatim>\<open>"chatbot"\<close> the analyzer takes the chatbot branch and returns
  the chatbot requirements, and the recommendation is labelled \<open>ECOMMERCE\<close>.
\<close>

theorem C1_label_fixed_at_chatbot:
  "requirement_branch ''chatbot'' = Some CHATBOT
   \<and> fr_requirements (fst (process_architecture_request ''chatbot'' AWS []))
        = chatbot_requirements
   \<and> chatbot_requirements \<noteq> ecommerce_requirements
   \<and> architecture_type (architecture (fst (process_architecture_request ''chatbot'' AWS [])))
        = ECOMMERCE"
proof -
  have b: "requirement_branch ''chatbot'' = Some CHATBOT"
    by code_simp
  have "chatbot_requirements \<noteq> ecommerce_requirements"
    using requirement_sets_differ(1) by simp
  then show ?thesis
    by (simp add: b fst_process_architecture_request fst_design_architecture
        fst_analyze_requirements)
qed

subsection \<open>C2: the deployment strategy\<close>

text \<open>
  C2 as stated, that any \<open>high_availability\<close> constraint present in the requirement set
  gives the blue-green strategy, fails: with \<open>high_availability\<close> in the dictionary's own
  \<^verbatim>\<open>constraints\<close> list and no business requirement, the strategy is the canary one.
\<close>

theorem C2_counterexample:
  "''high_availability''
     \<in> set (constraints (initial_requirements\<lparr>constraints := [''high_availability'']\<rparr>))
   \<and> get_deployment_strategy (initial_requirements\<lparr>constraints := [''high_availability'']\<rparr>)
       = ''Canary deployment with gradual rollout''"
proof -
  have "get_deployment_strategy (initial_requirements\<lparr>constraints := [''high_availability'']\<rparr>)
       = ''Canary deployment with gradual rollout''"
    by code_simp
  then show ?thesis
    by simp
qed

text \<open>
  C2, amended: for every requirement dictionary the strategy follows a fixed precedence.
  If a constraint of some business requirement contains the text \<open>high_availability\<close>,
  it is the blue-green strategy; otherwise, if an entry of the dictionary's own
  \<^verbatim>\<open>constraints\<close> list contains the text \<open>budget_conscious\<close>, it is the rolling
  strategy with cost optimization; otherwise it is the canary strategy.
\<close>

theorem C2_deployment_strategy_precedence:
  "get_deployment_strategy reqs =
     (if \<exists>r \<in> set (business_requirements reqs). \<exists>c \<in> set (br_constraints r).
           sublist ''high_availability'' c
        then ''Blue-Green deployment with zero downtime''
      else if \<exists>c \<in> set (constraints reqs). sublist ''budget_conscious'' c
        then ''Rolling deployment with cost optimization''
      else ''Canary deployment with gradual rollout'')"
  unfolding get_deployment_strategy_def any_business_constraint_iff any_constraint_iff
  by (rule refl)

theorem C2_witness:
  "get_deployment_strategy ecommerce_requirements = ''Blue-Green deployment with zero downtime''
   \<and> get_deployment_strategy (initial_requirements\<lparr>constraints := [''budget_conscious'']\<rparr>)
       = ''Rolling deployment with cost optimization''
   \<and> get_deployment_strategy chatbot_requirements = ''Canary deployment with gradual rollout''"
  using C2_deployment_strategy_precedence [of ecommerce_requirements]
    C2_deployment_strategy_precedence
      [of "initial_requirements\<lparr>constraints := [''budget_conscious'']\<rparr>"]
    C2_deployment_strategy_precedence [of chatbot_requirements]
  by (simp add: ecommerce_requirements_def chatbot_requirements_def initial_requirements_def
      mkBusinessRequirement_def sublist_code)

subsection \<open>C3: empty and whitespace-only descriptions\<close>

text \<open>
  C3 as stated, that analysis of an empty or whitespace-only description fails with
  \<open>InvalidInput\<close> and never returns an empty result, fails: the source has no check of
  the description and no \<^verbatim>\<open>raise\<close>, and for the empty description and for three
  spaces it returns the dictionary with its four lists empty.
\<close>

theorem C3_counterexample:
  "fst (analyze_requirements [] []) =
     \<lparr>business_requirements = [], technical_requirements = [],
      constraints = [], success_metrics = []\<rparr>
   \<and> fst (analyze_requirements ''   '' []) =
     \<lparr>business_requirements = [], technical_requirements = [],
      constraints = [], success_metrics = []\<rparr>"
  by code_simp

text \<open>
  C3, amended: for every empty or whitespace-only description the analysis returns the
  requirement dictionary with all four lists empty, and the pipeline goes on with it:
  the final recommendation carries that dictionary and an empty service list.
\<close>

theorem C3_blank_description_analysed:
  assumes "whitespace_only d"
  shows "fst (analyze_requirements d lg) = initial_requirements
    \<and> fr_requirements (fst (process_architecture_request d p lg)) = initial_requirements
    \<and> services (architecture (fst (process_architecture_request d p lg))) = []"
  using whitespace_only_branch [OF assms]
  by (simp add: fst_process_architecture_request fst_design_architecture
      branch_None_requirements analyzer_output_selects_nothing)

theorem C3_witness:
  "whitespace_only ''  ''
   \<and> fst (analyze_requirements ''  '' []) = initial_requirements
   \<and> fr_requirements (fst (process_architecture_request ''  '' AWS [])) = initial_requirements
   \<and> services (architecture (fst (process_architecture_request ''  '' AWS []))) = []"
proof -
  have w: "whitespace_only ''  ''"
    by code_simp
  show ?thesis
    using w C3_blank_description_analysed [OF w, of "[]" AWS] by simp
qed

subsection \<open>C4: descriptions that match no category\<close>

text \<open>
  C4 as stated, that a description with no keyword yields the generic fallback
  requirements and an overall confidence of at most \<open>0.3\<close>, fails: for
  \<^verbatim>\<open>"asdkj qpwoe random text"\<close> no branch is taken, the list of business requirements
  is empty, and the overall confidence is \<open>0.85\<close>.
\<close>

theorem C4_counterexample:
  "requirement_branch ''asdkj qpwoe random text'' = None
   \<and> business_requirements (fr_requirements
        (fst (process_architecture_request ''asdkj qpwoe random text'' default_provider [])))
        = []
   \<and> \<not> fr_confidence_score
        (fst (process_architecture_request ''asdkj qpwoe random text'' default_provider []))
        \<le> 3 / 10"
proof -
  have b: "requirement_branch ''asdkj qpwoe random text'' = None"
    by code_simp
  show ?thesis
    by (simp add: b fst_process_architecture_request branch_None_requirements
        initial_requirements_def)
qed

text \<open>
  C4, amended: for every description that contains none of the three keywords the
  pipeline returns a final recommendation whose requirement dictionary has all four
  lists empty, whose service list is empty, whose deployment strategy is the canary
  one, whose security considerations are the three baseline items, and whose overall
  confidence is \<open>0.85\<close>.
\<close>

theorem C4_unmatched_description:
  assumes "requirement_branch d = None"
  shows "fr_requirements (fst (process_architecture_request d p lg)) = initial_requirements
    \<and> services (architecture (fst (process_architecture_request d p lg))) = []
    \<and> deployment_strategy (architecture (fst (process_architecture_request d p lg)))
        = ''Canary deployment with gradual rollout''
    \<and> security_considerations (architecture (fst (process_architecture_request d p lg)))
        = [''Data encryption in transit and at rest'', ''Identity and access management'',
           ''Network security'']
    \<and> fr_confidence_score (fst (process_architecture_request d p lg)) = 85 / 100"
  using assms
  by (simp add: fst_process_architecture_request fst_design_architecture
      branch_None_requirements analyzer_output_selects_nothing initial_strategy
      initial_security)

theorem C4_witness:
  "requirement_branch ''asdkj qpwoe random text'' = None
   \<and> fr_requirements (fst (process_architecture_request ''asdkj qpwoe random text'' AWS []))
        = initial_requirements
   \<and> fr_confidence_score (fst (process_architecture_request ''asdkj qpwoe random text'' AWS []))
        = 85 / 100"
proof -
  have b: "requirement_branch ''asdkj qpwoe random text'' = None"
    by code_simp
  show ?thesis
    using b C4_unmatched_description [OF b, of AWS "[]"] by simp
qed

subsection \<open>C5: providers without a service table\<close>

text \<open>
  C5 as stated, that for a provider without a service list synthesis falls back to the
  default provider's non-empty list and lowers the confidence to \<open>0.5\<close>, fails: for a
  requirement dictionary that selects the e-commerce table and the provider \<open>AZURE\<close>,
  the service list is empty although the default provider's table is not, and the
  confidence is not \<open>0.5\<close>.
\<close>

theorem C5_counterexample:
  "select_services ecommerce_titled_requirements AZURE = design_ecommerce_architecture AZURE
   \<and> design_ecommerce_architecture default_provider \<noteq> []
   \<and> services (fst (design_architecture ecommerce_titled_requirements AZURE [])) = []
   \<and> confidence_score (fst (design_architecture ecommerce_titled_requirements AZURE []))
        \<noteq> 5 / 10"
  by (simp add: ecommerce_titled_select fst_design_architecture
      design_ecommerce_architecture_def default_provider_def)

text \<open>
  C5, amended: for every provider other than \<open>AWS\<close>, each of the three category tables
  is empty, so synthesis returns an empty service list for every requirement
  dictionary; the deployment strategy is the one returned for \<open>AWS\<close>, with no mark of a
  substitution, and the stage confidence stays \<open>0.85\<close>.
\<close>

theorem C5_no_provider_fallback:
  assumes "p \<noteq> AWS"
  shows "design_ecommerce_architecture p = []
    \<and> design_chatbot_architecture p = []
    \<and> design_expense_tracker_architecture p = []
    \<and> services (fst (design_architecture reqs p lg)) = []
    \<and> deployment_strategy (fst (design_architecture reqs p lg))
        = deployment_strategy (fst (design_architecture reqs AWS lg))
    \<and> confidence_score (fst (design_architecture reqs p lg)) = 85 / 100"
  using assms
  by (simp add: fst_design_architecture select_services_def design_ecommerce_architecture_def
      design_chatbot_architecture_def design_expense_tracker_architecture_def)

theorem C5_witness:
  "GCP \<noteq> AWS
   \<and> design_ecommerce_architecture GCP = []
   \<and> services (fst (design_architecture ecommerce_titled_requirements GCP [])) = []
   \<and> confidence_score (fst (design_architecture ecommerce_titled_requirements GCP []))
        = 85 / 100"
proof -
  have h: "GCP \<noteq> AWS"
    by simp
  show ?thesis
    using h C5_no_provider_fallback [OF h, of ecommerce_titled_requirements "[]"] by simp
qed

subsection \<open>C6: the overall confidence\<close>

text \<open>
  C6 as stated, that the overall confidence is the equal-weight mean of the
  classification, extraction and synthesis confidences with a penalty per failed
  specialist, fails: for \<^verbatim>\<open>"asdkj qpwoe random text"\<close>, where no category matches and
  the specification fixes the classification confidence at \<open>0.0\<close> and the extraction
  confidence at \<open>0.3\<close>, the score the source returns is not the value of the formula
  (with no specialist, as the source has none).
\<close>

theorem C6_counterexample:
  "requirement_branch ''asdkj qpwoe random text'' = None
   \<and> fr_confidence_score (fst (process_architecture_request ''asdkj qpwoe random text'' AWS []))
      \<noteq> spec_overall_confidence 0 (3 / 10)
           (confidence_score (architecture
              (fst (process_architecture_request ''asdkj qpwoe random text'' AWS [])))) 0"
proof -
  have b: "requirement_branch ''asdkj qpwoe random text'' = None"
    by code_simp
  show ?thesis
    by (simp add: b fst_process_architecture_request fst_design_architecture
        spec_overall_confidence_def)
qed

text \<open>
  C6, amended: for every run the overall confidence of the final recommendation is a
  copy of the synthesis confidence of its architecture, which is \<open>0.85\<close>; no other
  stage confidence and no specialist enters it.
\<close>

theorem C6_overall_confidence_is_synthesis_confidence:
  "fr_confidence_score (fst (process_architecture_request d p lg))
     = confidence_score (architecture (fst (process_architecture_request d p lg)))
   \<and> fr_confidence_score (fst (process_architecture_request d p lg)) = 85 / 100"
  by (simp add: fst_process_architecture_request fst_design_architecture)

subsection \<open>C7: the e-commerce scenario\<close>

text \<open>
  C7 as stated, that the e-commerce scenario ends with the rolling strategy with cost
  optimization, fails: for a description that contains the keyword, with the default
  provider, the deployment strategy is not the rolling one. The e-commerce
  requirements carry \<open>high_availability\<close> on their first business requirement, which
  takes precedence over \<open>budget_conscious\<close>.
\<close>

theorem C7_counterexample:
  "str_in ''ecommerce'' (lower ''Ecommerce online store for small business with product catalog, shopping cart, payment processing, admin dashboard'')
   \<and> deployment_strategy (architecture (fst (process_architecture_request
        ''Ecommerce online store for small business with product catalog, shopping cart, payment processing, admin dashboard''
        default_provider [])))
      \<noteq> ''Rolling deployment with cost optimization''"
proof -
  have k: "str_in ''ecommerce'' (lower ''Ecommerce online store for small business with product catalog, shopping cart, payment processing, admin dashboard'')"
    by code_simp
  then have "requirement_branch ''Ecommerce online store for small business with product catalog, shopping cart, payment processing, admin dashboard'' = Some ECOMMERCE"
    by (simp add: requirement_branch_def)
  then show ?thesis
    using k
    by (simp add: fst_process_architecture_request fst_design_architecture
        fst_analyze_requirements ecommerce_strategy)
qed

text \<open>
  C7, amended: for every description whose lowered text contains \<open>ecommerce\<close>, with the
  default provider, the pipeline returns the e-commerce requirements, the category
  label \<open>ECOMMERCE\<close>, the blue-green deployment strategy and an overall confidence of
  at least \<open>0.8\<close>; and the e-commerce service table of the default provider holds at
  least one compute, one database, one storage and one networking service.
\<close>

theorem C7_ecommerce_scenario:
  assumes "str_in ''ecommerce'' (lower d)"
  shows "fr_requirements (fst (process_architecture_request d default_provider lg))
        = ecommerce_requirements
    \<and> architecture_type (architecture (fst (process_architecture_request d default_provider lg)))
        = ECOMMERCE
    \<and> deployment_strategy (architecture (fst (process_architecture_request d default_provider lg)))
        = ''Blue-Green deployment with zero downtime''
    \<and> 8 / 10 \<le> fr_confidence_score (fst (process_architecture_request d default_provider lg))
    \<and> has_service_type ''compute'' (design_ecommerce_architecture default_provider)
    \<and> has_service_type ''database'' (design_ecommerce_architecture default_provider)
    \<and> has_service_type ''storage'' (design_ecommerce_architecture default_provider)
    \<and> has_service_type ''networking'' (design_ecommerce_architecture default_provider)"
proof -
  from assms have "requirement_branch d = Some ECOMMERCE"
    by (simp add: requirement_branch_def)
  then show ?thesis
    by (simp add: fst_process_architecture_request fst_design_architecture
        fst_analyze_requirements ecommerce_strategy ecommerce_catalogue_types
        default_provider_def)
qed

theorem C7_witness:
  "str_in ''ecommerce'' (lower ''Ecommerce store'')
   \<and> fr_requirements (fst (process_architecture_request ''Ecommerce store'' default_provider []))
        = ecommerce_requirements
   \<and> deployment_strategy (architecture
        (fst (process_architecture_request ''Ecommerce store'' default_provider [])))
        = ''Blue-Green deployment with zero downtime''
   \<and> 8 / 10 \<le> fr_confidence_score
        (fst (process_architecture_request ''Ecommerce store'' default_provider []))"
proof -
  have k: "str_in ''ecommerce'' (lower ''Ecommerce store'')"
    by code_simp
  show ?thesis
    using k C7_ecommerce_scenario [OF k, of "[]"] by simp
qed

subsection \<open>C8: the security considerations\<close>

text \<open>
  C8 as stated, that the payment-compliance item is present exactly when a PCI-DSS
  constraint tag is present, fails: with \<open>PCI_DSS_compliance\<close> in the dictionary's own
  \<^verbatim>\<open>constraints\<close> list and no business requirement, the item is not in the list.
\<close>

theorem C8_counterexample:
  "''PCI_DSS_compliance''
     \<in> set (constraints (initial_requirements\<lparr>constraints := [''PCI_DSS_compliance'']\<rparr>))
   \<and> ''PCI DSS compliance for payment processing''
       \<notin> set (get_security_considerations
                (initial_requirements\<lparr>constraints := [''PCI_DSS_compliance'']\<rparr>))"
proof -
  have "get_security_considerations
          (initial_requirements\<lparr>constraints := [''PCI_DSS_compliance'']\<rparr>)
      = [''Data encryption in transit and at rest'', ''Identity and access management'',
         ''Network security'']"
    by code_simp
  then show ?thesis
    by simp
qed

text \<open>
  C8, amended: for every requirement dictionary the list of security considerations is
  the three baseline items, then the payment-compliance item exactly when a constraint
  of some business requirement contains the text \<open>PCI_DSS_compliance\<close>, then the
  privacy-regulation item exactly when an entry of the dictionary's own
  \<^verbatim>\<open>constraints\<close> list contains the text \<open>data_privacy\<close>; the list has no duplicates.
\<close>

theorem C8_security_considerations:
  "get_security_considerations reqs =
     [''Data encryption in transit and at rest'', ''Identity and access management'',
      ''Network security'']
     @ (if \<exists>r \<in> set (business_requirements reqs). \<exists>c \<in> set (br_constraints r).
             sublist ''PCI_DSS_compliance'' c
        then [''PCI DSS compliance for payment processing''] else [])
     @ (if \<exists>c \<in> set (constraints reqs). sublist ''data_privacy'' c
        then [''GDPR compliance for data privacy''] else [])
   \<and> distinct (get_security_considerations reqs)"
  by (simp add: get_security_considerations_def Let_def
      any_business_constraint_iff [symmetric] any_constraint_iff [symmetric])

theorem C8_witness:
  "get_security_considerations ecommerce_requirements =
     [''Data encryption in transit and at rest'', ''Identity and access management'',
      ''Network security'', ''PCI DSS compliance for payment processing'']
   \<and> get_security_considerations expense_requirements =
     [''Data encryption in transit and at rest'', ''Identity and access management'',
      ''Network security'', ''GDPR compliance for data privacy'']
   \<and> distinct (get_security_considerations expense_requirements)"
  using C8_security_considerations [of ecommerce_requirements]
    C8_security_considerations [of expense_requirements]
  by (simp add: ecommerce_requirements_def expense_requirements_def initial_requirements_def
      mkBusinessRequirement_def sublist_code)

subsection \<open>C9: determinism\<close>

text \<open>
  C9: two runs of the pipeline on the same description and provider return final
  recommendations that are equal in every field, whatever the log held when each run
  started. The log is the only state the pipeline reads or writes.
\<close>

theorem C9_deterministic:
  "fst (process_architecture_request d p lg1) = fst (process_architecture_request d p lg2)"
  by (simp add: fst_process_architecture_request)

subsection \<open>C10: the first matching category wins\<close>

text \<open>
  C10: the analysis tests the lowered description for \<open>ecommerce\<close>, then \<open>chatbot\<close>,
  then \<open>expense\<close>, and returns the requirements of the first keyword found: the
  e-commerce requirements whenever \<open>ecommerce\<close> occurs, the chatbot requirements when
  \<open>chatbot\<close> occurs and \<open>ecommerce\<close> does not, the expense requirements when only
  \<open>expense\<close> occurs.
\<close>

theorem C10_first_match_wins:
  "(str_in ''ecommerce'' (lower d) \<longrightarrow>
      fst (analyze_requirements d lg) = ecommerce_requirements)
   \<and> (\<not> str_in ''ecommerce'' (lower d) \<and> str_in ''chatbot'' (lower d) \<longrightarrow>
      fst (analyze_requirements d lg) = chatbot_requirements)
   \<and> (\<not> str_in ''ecommerce'' (lower d) \<and> \<not> str_in ''chatbot'' (lower d)
        \<and> str_in ''expense'' (lower d) \<longrightarrow>
      fst (analyze_requirements d lg) = expense_requirements)"
  by (simp add: analyze_requirements_def Let_def)

theorem C10_witness:
  "(str_in ''ecommerce'' (lower ''A Chatbot for an Ecommerce expense desk'')
     \<and> str_in ''chatbot'' (lower ''A Chatbot for an Ecommerce expense desk'')
     \<and> str_in ''expense'' (lower ''A Chatbot for an Ecommerce expense desk'')
     \<and> fst (analyze_requirements ''A Chatbot for an Ecommerce expense desk'' [])
         = ecommerce_requirements)
   \<and> (\<not> str_in ''ecommerce'' (lower ''Expense chatbot'')
     \<and> str_in ''chatbot'' (lower ''Expense chatbot'')
     \<and> str_in ''expense'' (lower ''Expense chatbot'')
     \<and> fst (analyze_requirements ''Expense chatbot'' []) = chatbot_requirements)
   \<and> (\<not> str_in ''ecommerce'' (lower ''EXPENSE reports'')
     \<and> \<not> str_in ''chatbot'' (lower ''EXPENSE reports'')
     \<and> str_in ''expense'' (lower ''EXPENSE reports'')
     \<and> fst (analyze_requirements ''EXPENSE reports'' []) = expense_requirements)"
proof -
  have a: "str_in ''ecommerce'' (lower ''A Chatbot for an Ecommerce expense desk'')"
    "str_in ''chatbot'' (lower ''A Chatbot for an Ecommerce expense desk'')"
    "str_in ''expense'' (lower ''A Chatbot for an Ecommerce expense desk'')"
    by code_simp+
  have b: "\<not> str_in ''ecommerce'' (lower ''Expense chatbot'')"
    "str_in ''chatbot'' (lower ''Expense chatbot'')"
    "str_in ''expense'' (lower ''Expense chatbot'')"
    by code_simp+
  have c: "\<not> str_in ''ecommerce'' (lower ''EXPENSE reports'')"
    "\<not> str_in ''chatbot'' (lower ''EXPENSE reports'')"
    "str_in ''expense'' (lower ''EXPENSE reports'')"
    by code_simp+
  show ?thesis
    using a b c C10_first_match_wins [of "''A Chatbot for an Ecommerce expense desk''" "[]"]
      C10_first_match_wins [of "''Expense chatbot''" "[]"]
      C10_first_match_wins [of "''EXPENSE reports''" "[]"]
    by simp
qed

end
